theory Spec2Isabelle
  imports Main
begin

section \<open>Citation model (prompts.py)\<close>

text \<open>
  \<^verbatim>\<open>AnswerStatement\<close> and \<^verbatim>\<open>AnswerWithCitations\<close> are the two value classes of
  \<^verbatim>\<open>prompts.py\<close>. An \<^verbatim>\<open>Optional[str]\<close> field is a \<open>string option\<close>; the field name
  \<^verbatim>\<open>answer_sentece\<close> is spelled as in the source.
\<close>

record AnswerStatement =
  reasoning :: string
  answer_sentece :: string
  reference_url :: "string option"
  reference_title :: "string option"

record AnswerWithCitations =
  statements :: "AnswerStatement list"

text \<open>
  Python truth value of an \<^verbatim>\<open>Optional[str]\<close>: \<^verbatim>\<open>None\<close> and the empty string are false,
  every other string is true.
\<close>

fun truthy :: "string option \<Rightarrow> bool" where
  "truthy None = False"
| "truthy (Some s) = (s \<noteq> [])"

text \<open>What an f-string writes for an \<^verbatim>\<open>Optional[str]\<close> placeholder.\<close>

fun py_str :: "string option \<Rightarrow> string" where
  "py_str None = ''None''"
| "py_str (Some s) = s"

text \<open>
  The body of the loop of \<^verbatim>\<open>format_response\<close>, up to the \<^verbatim>\<open>append\<close>:
  \<^verbatim>\<open>
  text = statement.answer_sentece
  if statement.reference_url and statement.reference_title:
      text += f" [[{statement.reference_title}]({statement.reference_url})]"
  \<close>
\<close>

definition statement_text :: "AnswerStatement \<Rightarrow> string" where
  "statement_text statement =
     (let text = answer_sentece statement in
      if truthy (reference_url statement) \<and> truthy (reference_title statement)
      then text @ '' [['' @ py_str (reference_title statement) @ '']('' @
           py_str (reference_url statement) @ '')]''
      else text)"

text \<open>
  The \<^verbatim>\<open>for\<close> loop, with the local list \<^verbatim>\<open>answer_text\<close> as an accumulator that each
  iteration extends at its end.
\<close>

fun format_loop :: "AnswerStatement list \<Rightarrow> string list \<Rightarrow> string list" where
  "format_loop [] answer_text = answer_text"
| "format_loop (statement # rest) answer_text =
     format_loop rest (answer_text @ [statement_text statement])"

text \<open>\<^verbatim>\<open>sep.join(xs)\<close> of Python. The separator of \<^verbatim>\<open>format_response\<close> is the one-character
  string of the line feed, \<open>[CHR 0x0A]\<close>.\<close>

fun str_join :: "string \<Rightarrow> string list \<Rightarrow> string" where
  "str_join sep [] = []"
| "str_join sep [x] = x"
| "str_join sep (x # y # ys) = x @ sep @ str_join sep (y # ys)"

definition format_response :: "'a AnswerWithCitations_scheme \<Rightarrow> string" where
  "format_response self = str_join [CHR 0x0A] (format_loop (statements self) [])"

text \<open>
  Splitting a string at every occurrence of a separator character, as \<^verbatim>\<open>str.split(sep)\<close>
  does for a one-character separator; used to read the lines of a rendered answer back.
\<close>

fun split_on :: "char \<Rightarrow> string \<Rightarrow> string list" where
  "split_on c [] = [[]]"
| "split_on c (x # xs) =
     (if x = c then [] # split_on c xs
      else (case split_on c xs of [] \<Rightarrow> [[x]] | l # ls \<Rightarrow> (x # l) # ls))"

text \<open>An answer whose first statement has a text of two lines, for the examples.\<close>

definition multiline_answer :: AnswerWithCitations where
  "multiline_answer =
     \<lparr>statements =
        [\<lparr>reasoning = ''summary'', answer_sentece = ''Summary:'' @ [CHR 0x0A] @ ''details'',
          reference_url = None, reference_title = None\<rparr>,
         \<lparr>reasoning = ''fact'', answer_sentece = ''* Second.'',
          reference_url = None, reference_title = None\<rparr>]\<rparr>"

section \<open>The rendering as a method call on stored objects (prompts.py)\<close>

text \<open>
  In Python an \<^verbatim>\<open>AnswerWithCitations\<close> is an object in the store, and its attribute
  \<^verbatim>\<open>statements\<close> is a list of references to \<^verbatim>\<open>AnswerStatement\<close> objects. A method
  call works on the store and could change it, so what a second call returns depends on
  what the first one left behind. The store maps references to objects; a reference that
  the store does not hold cannot occur in Python and is the result \<open>None\<close> here.
\<close>

record py_store =
  statement_objects :: "nat \<rightharpoonup> AnswerStatement"
  answer_objects :: "nat \<rightharpoonup> nat list"

text \<open>
  The frame of one call of \<^verbatim>\<open>format_response\<close>: the store and the two local variables
  \<^verbatim>\<open>text\<close> and \<^verbatim>\<open>answer_text\<close>.
\<close>

record format_frame =
  frame_store :: py_store
  local_text :: string
  local_answer_text :: "string list"

text \<open>
  One iteration of the loop, for the statement behind the reference \<open>ref\<close>. The
  assignment binds the local \<^verbatim>\<open>text\<close> to the statement's string; \<^verbatim>\<open>text += ...\<close> binds it
  to a new string, strings being immutable, and leaves the statement's attribute as it was;
  \<^verbatim>\<open>append\<close> extends the local list.
\<close>

definition loop_body_call :: "nat \<Rightarrow> format_frame \<Rightarrow> format_frame option" where
  "loop_body_call ref fr =
     (case statement_objects (frame_store fr) ref of
        None \<Rightarrow> None
      | Some statement \<Rightarrow>
          (let fr1 = fr\<lparr>local_text := answer_sentece statement\<rparr>;
               fr2 = (if truthy (reference_url statement) \<and> truthy (reference_title statement)
                      then fr1\<lparr>local_text := local_text fr1 @ '' [['' @
                             py_str (reference_title statement) @ '']('' @
                             py_str (reference_url statement) @ '')]''\<rparr>
                      else fr1)
           in Some (fr2\<lparr>local_answer_text := local_answer_text fr2 @ [local_text fr2]\<rparr>)))"

fun format_loop_call :: "nat list \<Rightarrow> format_frame \<Rightarrow> format_frame option" where
  "format_loop_call [] fr = Some fr"
| "format_loop_call (ref # rest) fr =
     (case loop_body_call ref fr of
        None \<Rightarrow> None
      | Some fr' \<Rightarrow> format_loop_call rest fr')"

text \<open>
  The call \<^verbatim>\<open>self.format_response()\<close> on the object behind \<open>self\<close>: it returns the
  markdown and the store it leaves.
\<close>

definition format_response_call :: "py_store \<Rightarrow> nat \<Rightarrow> (string \<times> py_store) option" where
  "format_response_call st self =
     (case answer_objects st self of
        None \<Rightarrow> None
      | Some refs \<Rightarrow>
          (case format_loop_call refs
                  \<lparr>frame_store = st, local_text = [], local_answer_text = []\<rparr> of
             None \<Rightarrow> None
           | Some fr \<Rightarrow> Some (str_join [CHR 0x0A] (local_answer_text fr), frame_store fr)))"

text \<open>Two calls in a row on the same object; the second runs on the store that the first
  left. The result is the pair of the two markdown strings.\<close>

definition render_twice :: "py_store \<Rightarrow> nat \<Rightarrow> (string \<times> string) option" where
  "render_twice st self =
     (case format_response_call st self of
        None \<Rightarrow> None
      | Some (first, st1) \<Rightarrow>
          (case format_response_call st1 self of
             None \<Rightarrow> None
           | Some (second, st2) \<Rightarrow> Some (first, second)))"

text \<open>A store with one answer of two statements, for the examples.\<close>

definition example_store :: py_store where
  "example_store =
     \<lparr>statement_objects =
        [1 \<mapsto> \<lparr>reasoning = ''title'', answer_sentece = ''## Paris'',
                  reference_url = None, reference_title = None\<rparr>,
         2 \<mapsto> \<lparr>reasoning = ''fact'', answer_sentece = ''* Paris is the capital.'',
                  reference_url = Some ''https://example.org/paris'',
                  reference_title = Some ''Paris''\<rparr>],
      answer_objects = [0 \<mapsto> [1, 2]]\<rparr>"

section \<open>Structured outputs of the clarification and planning prompts (prompts.py)\<close>

text \<open>
  \<^verbatim>\<open>ClarificationOutput\<close> and \<^verbatim>\<open>PlannerOutput\<close> are pydantic models that declare
  fields and nothing else: the classes have no validator and no method. A field declared
  with \<^verbatim>\<open>Field(description=...)\<close> alone is required; \<^verbatim>\<open>clarifying_question\<close> is declared
  with \<^verbatim>\<open>default=None\<close> and may be left out. The constructor is modelled with one optional
  argument per keyword (\<open>None\<close>: the keyword is not given), and it fails exactly when a
  required keyword is missing, naming the missing fields.
\<close>

datatype validation_error = Missing "string list"

record ClarificationOutput =
  clarification_is_required :: bool
  clarifying_question :: "string option"
  final_statements :: "string list"

definition ClarificationOutput_init ::
  "bool option \<Rightarrow> string option option \<Rightarrow> string list option \<Rightarrow>
   validation_error + ClarificationOutput" where
  "ClarificationOutput_init required_arg question_arg statements_arg =
     (case (required_arg, statements_arg) of
        (Some r, Some fs) \<Rightarrow>
          Inr \<lparr>clarification_is_required = r,
               clarifying_question = (case question_arg of None \<Rightarrow> None | Some q \<Rightarrow> q),
               final_statements = fs\<rparr>
      | _ \<Rightarrow>
          Inl (Missing
            ((if required_arg = None then [''clarification_is_required''] else []) @
             (if statements_arg = None then [''final_statements''] else []))))"

text \<open>The output halves of the four entries of \<^verbatim>\<open>ClarificationPrompt.examples\<close>.\<close>

definition clarification_example_1 :: "validation_error + ClarificationOutput" where
  "clarification_example_1 =
     ClarificationOutput_init
        (Some False)
        (Some None)
        (Some ([''Capital of France'']))"

definition clarification_example_2 :: "validation_error + ClarificationOutput" where
  "clarification_example_2 =
     ClarificationOutput_init
        (Some False)
        (Some None)
        (Some ([''Python programming language historyPython language features'']))"

definition clarification_example_3 :: "validation_error + ClarificationOutput" where
  "clarification_example_3 =
     ClarificationOutput_init
        (Some True)
        (Some (Some (''Are you interested in the nutritional benefits, or the '' @
               ''benefits for specific health conditions?'')))
        (Some [])"

definition clarification_example_4 :: "validation_error + ClarificationOutput" where
  "clarification_example_4 =
     ClarificationOutput_init
        (Some False)
        (Some None)
        (Some ([''Book '' @ [CHR 0x27] @ ''1984'' @ [CHR 0x27] @ '' author'',
               ''Book '' @ [CHR 0x27] @ ''1984'' @ [CHR 0x27] @ '' main themes'']))"

definition clarification_examples :: "(validation_error + ClarificationOutput) list" where
  "clarification_examples =
     [clarification_example_1, clarification_example_2,
      clarification_example_3, clarification_example_4]"

text \<open>
  The pairing that the data model asks of a clarification decision, in the specification's
  words: the question is present iff clarification is required, and the final statements
  are non-empty iff it is not.
\<close>

definition clarification_pairing :: "ClarificationOutput \<Rightarrow> bool" where
  "clarification_pairing c =
     ((clarifying_question c \<noteq> None) = clarification_is_required c \<and>
      (final_statements c \<noteq> []) = (\<not> clarification_is_required c))"

record PlannerOutput =
  reasoning_on_topics :: string
  expanded_topics :: "string list"
  reasoning_on_plan :: string
  plan :: "string list"

definition PlannerOutput_init ::
  "string option \<Rightarrow> string list option \<Rightarrow> string option \<Rightarrow> string list option \<Rightarrow>
   validation_error + PlannerOutput" where
  "PlannerOutput_init topics_reasoning_arg topics_arg plan_reasoning_arg plan_arg =
     (case (topics_reasoning_arg, topics_arg, plan_reasoning_arg, plan_arg) of
        (Some rt, Some ts, Some rp, Some p) \<Rightarrow>
          Inr \<lparr>reasoning_on_topics = rt, expanded_topics = ts,
               reasoning_on_plan = rp, plan = p\<rparr>
      | _ \<Rightarrow>
          Inl (Missing
            ((if topics_reasoning_arg = None then [''reasoning_on_topics''] else []) @
             (if topics_arg = None then [''expanded_topics''] else []) @
             (if plan_reasoning_arg = None then [''reasoning_on_plan''] else []) @
             (if plan_arg = None then [''plan''] else []))))"

text \<open>
  The output halves of the three entries of \<^verbatim>\<open>PlanPrompt.examples\<close>. Characters outside
  ASCII (the en dash) are written as their UTF-8 bytes.
\<close>

definition plan_example_1 :: "validation_error + PlannerOutput" where
  "plan_example_1 =
     PlannerOutput_init
        (Some (''Break the generic request into concrete, decision-making '' @
               ''topics that directly affect suitability: intended terrain '' @
               ''and riding profile, budget-constrained model shortlist '' @
               ''(2024'' @ [CHR 0xE2, CHR 0x80, CHR 0x93] @ ''2025), fit and geometry for 5'' @ [CHR 0x27] @ ''10'' @ [CHR 0x22] @ '' rider, frame '' @
               ''material trade-offs, drivetrain configuration (1x vs 2x) '' @
               ''for mixed terrain, tire clearance and wheel/tire '' @
               ''compatibility (tubeless), braking and mounting points for '' @
               ''endurance comfort, and authoritative review sources for '' @
               ''triangulation. Limit to <=10 distinct topics.''))
        (Some ([''Riding profile and terrain requirements (endurance, mixed '' @
                ''surface)'',
               ''Model shortlist 2024'' @ [CHR 0xE2, CHR 0x80, CHR 0x93] @ ''2025 within ~$2,500 budget'',
               ''Fit guidance and endurance geometry for 5'' @ [CHR 0x27] @ ''10'' @ [CHR 0x22] @ '' rider'',
               ''Frame material trade-offs (alloy vs carbon vs steel) for '' @
                ''comfort'',
               ''Drivetrain choice trade-offs (1x vs 2x) for varied gradients'',
               ''Tire clearance, tubeless compatibility, and wheel standards'',
               ''Mounting points (bags, extra bottles) and comfort features'',
               ''Reliable review sources and long-ride test impressions'']))
        (Some (''Choose exactly three non-overlapping steps that each answer '' @
               ''a single, specific question while covering the decision '' @
               ''funnel: (1) confirm a budget-constrained model pool; (2) '' @
               ''determine fit/geometry for the rider; (3) compare key build '' @
               ''trade-offs for endurance comfort.''))
        (Some ([''Which 2024'' @ [CHR 0xE2, CHR 0x80, CHR 0x93] @ ''2025 gravel bike models under $2,500 are '' @
                ''best-reviewed for endurance comfort on mixed terrain (list '' @
                ''5'' @ [CHR 0xE2, CHR 0x80, CHR 0x93] @ ''8 models with sources)?'',
               ''What size and endurance-oriented geometry characteristics '' @
                ''best fit a 5'' @ [CHR 0x27] @ ''10'' @ [CHR 0x22] @ '' (178 cm) rider among those models (reach, '' @
                ''stack, size guidance)?'',
               ''For long mixed-terrain rides at this budget, what are the '' @
                ''practical trade-offs between frame materials and 1x vs 2x '' @
                ''drivetrains for comfort and range?'']))"

definition plan_example_2 :: "validation_error + PlannerOutput" where
  "plan_example_2 =
     PlannerOutput_init
        (Some (''Expand to discrete, checkable facts from authoritative '' @
               ''sources: identity and regnal name; accession and coronation '' @
               ''timeline; and official title terminology distinguishing '' @
               [CHR 0x27] @ ''King of England'' @ [CHR 0x27] @ '' vs '' @ [CHR 0x27] @ ''King of the United Kingdom'' @ [CHR 0x27] @ ''.''))
        (Some ([''Identity of the current monarch of the United Kingdom'',
               ''Regnal name and styling'',
               ''Accession date and circumstances'',
               ''Coronation date and key ceremony details'',
               ''Official title/terminology guidance (UK vs '' @ [CHR 0x27] @ ''England'' @ [CHR 0x27] @ '')'',
               ''Authoritative sources (Royal Family, UK government, BBC, '' @
                ''Britannica)'']))
        (Some (''Sequence the research to ensure verification before '' @
               ''interpretation: first confirm identity and regnal details; '' @
               ''then verify key dates; finally clarify official styling. '' @
               ''Each step is a single, narrowly defined question.''))
        (Some ([''Who is the current monarch of the United Kingdom and what '' @
                ''is the correct regnal name?'',
               ''What are the accession and coronation dates for the current '' @
                ''monarch (with 2+ authoritative citations)?'',
               ''What is the proper official title and why is '' @ [CHR 0x27] @ ''King of '' @
                ''England'' @ [CHR 0x27] @ '' imprecise in modern usage?'']))"

definition plan_example_3 :: "validation_error + PlannerOutput" where
  "plan_example_3 =
     PlannerOutput_init
        (Some (''Split into origin/provenance, public release timing, and '' @
               ''transition to CNCF governance; also capture high-level '' @
               ''capabilities to provide context but keep the plan focused '' @
               ''on verifiable historical/governance facts.''))
        (Some ([''Kubernetes origin at Google (internal history, project '' @
                ''roots)'',
               ''Initial public release timing (year/version)'',
               ''Donation to CNCF (year and rationale)'',
               ''Current CNCF governance model (SIGs, TOC, maintainers)'',
               ''Official sources (kubernetes.io, CNCF blog, Wikipedia)'']))
        (Some (''Address the user'' @ [CHR 0x27] @ ''s facets in three narrow questions: '' @
               ''origin, CNCF transition, and current governance structure.''))
        (Some ([''Where did Kubernetes originate and in what year was it '' @
                ''first publicly released?'',
               ''When was Kubernetes donated to the Cloud Native Computing '' @
                ''Foundation and why?'',
               ''How is Kubernetes governed today under CNCF (key bodies and '' @
                ''roles)?'']))"

definition plan_examples :: "(validation_error + PlannerOutput) list" where
  "plan_examples = [plan_example_1, plan_example_2, plan_example_3]"

text \<open>
  A valid plan in the specification's words: exactly three steps, pairwise non-identical,
  and at most ten expanded topics.
\<close>

definition valid_plan :: "PlannerOutput \<Rightarrow> bool" where
  "valid_plan p = (length (plan p) = 3 \<and> distinct (plan p) \<and> length (expanded_topics p) \<le> 10)"

text \<open>A constructor call was accepted and its result has the property \<open>P\<close>.\<close>

fun accepted_with :: "('a \<Rightarrow> bool) \<Rightarrow> validation_error + 'a \<Rightarrow> bool" where
  "accepted_with P (Inr x) = P x"
| "accepted_with P (Inl e) = False"

section \<open>Local retrieval tool (mcp_retrieval.py)\<close>




text \<open>
  \<^verbatim>\<open>DocModel\<close> is the item that the tool returns. Its fields \<^verbatim>\<open>url\<close> and \<^verbatim>\<open>title\<close> are
  declared \<^verbatim>\<open>str | None\<close>, and the construction validates them: \<^verbatim>\<open>None\<close> and a string are
  accepted as they are, a value of another type is refused. The construction then raises a
  validation error that names the refused fields.
\<close>

record DocModel =
  content :: string
  url :: "string option"
  title :: "string option"













section \<open>Research Worker\<close>

text \<open>
  Of the Research Worker the sources hold the prompt text \<^verbatim>\<open>subagentPrompt\<close> and the
  classes \<^verbatim>\<open>SubagentInput\<close> and \<^verbatim>\<open>SubagentOutput\<close>; the loop that issues the tool calls
  is not among them. The loop is therefore modelled from sections 3 and 4.4 of the
  specification.
\<close>

text \<open>Modelled from the spec: the kind of a tool call, from \<^verbatim>\<open>ToolCallRecord\<close> (the worker
  loop is missing from the sources); \<open>note_tool\<close> is the kind \<^verbatim>\<open>note\<close>.\<close>

datatype tool_kind = retrieval | web_search | note_tool

text \<open>Modelled from the spec: \<^verbatim>\<open>ToolCallRecord\<close>, the bookkeeping entry of one tool call
  (the worker loop is missing from the sources).\<close>

record ToolCallRecord =
  kind :: tool_kind
  query :: string
  result_count :: int

text \<open>Modelled from the spec: the states of the worker's state machine,
  \<^verbatim>\<open>Start, Searching, Reflecting, Answering, Done\<close> (the worker loop is missing from the
  sources).\<close>

datatype worker_phase = Start | Searching | Reflecting | Answering | Done

text \<open>Modelled from the spec: the four stop conditions of the worker, in their priority
  order (the worker loop is missing from the sources).\<close>

datatype stop_reason = Confident | EnoughSources | DiminishingReturns | BudgetExhausted

text \<open>Modelled from the spec: what the external collaborators hand to the worker at one
  step (the worker loop is missing from the sources). The generation capability chooses
  the query and judges the results (whether a confident answer is possible, how many
  relevant distinct sources are gathered, whether the last two searches were similar); the
  two search backends report how many results they returned. All of it is advisory input
  that the worker does not control.\<close>

record worker_input =
  chosen_query :: string
  local_results :: int
  web_results :: int
  confident :: bool
  relevant_sources :: nat
  similar_to_previous :: bool

text \<open>Modelled from the spec: the state of one worker execution, its phase, the tool calls
  made so far and the stop condition that ended the loop (the worker loop is missing from
  the sources).\<close>

record worker_state =
  phase :: worker_phase
  calls :: "ToolCallRecord list"
  stopped :: "stop_reason option"

text \<open>Modelled from the spec: the number of search-type tool calls, retrieval and web
  search combined; a \<^verbatim>\<open>note\<close> call is not counted (the worker loop is missing from the
  sources).\<close>

definition search_calls :: "ToolCallRecord list \<Rightarrow> nat" where
  "search_calls log = length (filter (\<lambda>r. kind r \<noteq> note_tool) log)"

text \<open>Modelled from the spec: one visit of the state \<open>Searching\<close> (the worker loop is
  missing from the sources). A search is issued only while the budget is not used up. The
  local index is asked first; the web search is the fallback when the index returned
  nothing, and it is a second search call, issued only if the budget still allows it.\<close>

definition issue_searches :: "int \<Rightarrow> worker_input \<Rightarrow> ToolCallRecord list \<Rightarrow> ToolCallRecord list" where
  "issue_searches max_tool_calls inp log =
     (if int (search_calls log) < max_tool_calls then
        (let log1 = log @ [\<lparr>kind = retrieval, query = chosen_query inp,
                             result_count = local_results inp\<rparr>] in
         if local_results inp \<le> 0 \<and> int (search_calls log1) < max_tool_calls
         then log1 @ [\<lparr>kind = web_search, query = chosen_query inp,
                        result_count = web_results inp\<rparr>]
         else log1)
      else log)"

text \<open>Modelled from the spec: the reflection after a search, a \<^verbatim>\<open>note\<close> call (the worker
  loop is missing from the sources).\<close>

definition reflect :: "worker_input \<Rightarrow> ToolCallRecord list \<Rightarrow> ToolCallRecord list" where
  "reflect inp log = log @ [\<lparr>kind = note_tool, query = chosen_query inp, result_count = 0\<rparr>]"

text \<open>Modelled from the spec: the stop conditions checked after each reflection, as an
  explicit ordered check (the worker loop is missing from the sources).\<close>

definition stop_condition :: "int \<Rightarrow> worker_input \<Rightarrow> ToolCallRecord list \<Rightarrow> stop_reason option" where
  "stop_condition max_tool_calls inp log =
     (if confident inp then Some Confident
      else if 2 \<le> relevant_sources inp then Some EnoughSources
      else if similar_to_previous inp then Some DiminishingReturns
      else if max_tool_calls \<le> int (search_calls log) then Some BudgetExhausted
      else None)"

text \<open>Modelled from the spec: one transition of the worker's state machine
  \<^verbatim>\<open>Start -> Searching -> Reflecting -> {Searching | Answering} -> Done\<close> (the worker loop
  is missing from the sources).\<close>

definition worker_step :: "int \<Rightarrow> worker_state \<Rightarrow> worker_input \<Rightarrow> worker_state" where
  "worker_step max_tool_calls s inp =
     (case phase s of
        Start \<Rightarrow> s\<lparr>phase := Searching\<rparr>
      | Searching \<Rightarrow>
          s\<lparr>phase := Reflecting, calls := issue_searches max_tool_calls inp (calls s)\<rparr>
      | Reflecting \<Rightarrow>
          (let log = reflect inp (calls s) in
           case stop_condition max_tool_calls inp log of
             Some reason \<Rightarrow> s\<lparr>phase := Answering, calls := log, stopped := Some reason\<rparr>
           | None \<Rightarrow> s\<lparr>phase := Searching, calls := log\<rparr>)
      | Answering \<Rightarrow> s\<lparr>phase := Done\<rparr>
      | Done \<Rightarrow> s)"

text \<open>Modelled from the spec: the initial state of \<^verbatim>\<open>execute\<close> and the execution driven
  by a sequence of inputs, one per transition (the worker loop is missing from the
  sources).\<close>

definition worker_start :: worker_state where
  "worker_start = \<lparr>phase = Start, calls = [], stopped = None\<rparr>"

definition worker_run :: "int \<Rightarrow> worker_input list \<Rightarrow> worker_state" where
  "worker_run max_tool_calls inputs = foldl (worker_step max_tool_calls) worker_start inputs"

text \<open>An input on which no advisory stop condition holds and the local index finds
  something: the worker goes on until its budget stops it.\<close>

definition undecided_input :: worker_input where
  "undecided_input =
     \<lparr>chosen_query = ''capital of France'', local_results = 2, web_results = 0,
      confident = False, relevant_sources = 0, similar_to_previous = False\<rparr>"

text \<open>An upper bound on the transitions that a worker still makes before \<open>Done\<close>.\<close>

definition worker_remaining :: "int \<Rightarrow> worker_state \<Rightarrow> nat" where
  "worker_remaining max_tool_calls s =
     (let left = nat (max_tool_calls - int (search_calls (calls s))) in
      case phase s of
        Start \<Rightarrow> 2 * left + 4
      | Searching \<Rightarrow> 2 * left + 3
      | Reflecting \<Rightarrow> (if left = 0 then 2 else 2 * left + 4)
      | Answering \<Rightarrow> 1
      | Done \<Rightarrow> 0)"

section \<open>Research Supervisor\<close>

text \<open>
  Of the Research Supervisor the sources hold the prompt text \<^verbatim>\<open>supervisorPrompt\<close> only;
  the scheduler that dispatches the research tasks is not among them. It is modelled from
  sections 4.3 and 5 of the specification, as an interleaving of dispatch and completion
  events.
\<close>

text \<open>The class \<^verbatim>\<open>SubagentOutput\<close> of \<^verbatim>\<open>prompts.py\<close>, the terminal output of a worker
  (the specification's \<^verbatim>\<open>SubagentResult\<close>).\<close>

record SubagentOutput =
  report :: string
  references :: "string list"

text \<open>Modelled from the spec: the state of the scheduler (which is missing from the
  sources). Tasks are named by their dispatch position. \<open>pending\<close> is the queue of tasks
  not yet dispatched, \<open>in_flight\<close> the tasks that are running, and \<open>slots\<close> the
  pre-allocated results, indexed by dispatch position.\<close>

record supervisor_state =
  pending :: "nat list"
  in_flight :: "nat list"
  slots :: "SubagentOutput option list"

text \<open>Modelled from the spec: what can happen to the scheduler (which is missing from the
  sources): it tries to dispatch the next queued task, the worker of a task returns its
  result, or the iteration bound is reached and the run is cut short.\<close>

datatype supervisor_event = Dispatch | Complete nat SubagentOutput | Abandon

text \<open>Modelled from the spec: one transition of the scheduler (which is missing from the
  sources). A task is dispatched only while fewer than \<open>max_concurrent_research_units\<close>
  tasks are in flight; otherwise it stays queued. A completion frees the slot of its task
  and writes the result at the task's dispatch position. When the run is cut short the
  workers still running are abandoned, nothing more is dispatched, and their slots stay
  without a result.\<close>

definition supervisor_step :: "int \<Rightarrow> supervisor_state \<Rightarrow> supervisor_event \<Rightarrow> supervisor_state" where
  "supervisor_step max_concurrent_research_units s ev =
     (case ev of
        Dispatch \<Rightarrow>
          (case pending s of
             [] \<Rightarrow> s
           | t # rest \<Rightarrow>
               if int (length (in_flight s)) < max_concurrent_research_units
               then s\<lparr>pending := rest, in_flight := in_flight s @ [t]\<rparr>
               else s)
      | Complete t r \<Rightarrow>
          if t \<in> set (in_flight s)
          then s\<lparr>in_flight := removeAll t (in_flight s), slots := (slots s)[t := Some r]\<rparr>
          else s
      | Abandon \<Rightarrow> s\<lparr>pending := [], in_flight := []\<rparr>)"

text \<open>Modelled from the spec: the scheduler's initial state for \<open>n\<close> tasks and its run over
  a sequence of events (the scheduler is missing from the sources).\<close>

definition supervisor_start :: "nat \<Rightarrow> supervisor_state" where
  "supervisor_start n = \<lparr>pending = [0..<n], in_flight = [], slots = replicate n None\<rparr>"

definition supervisor_run :: "int \<Rightarrow> nat \<Rightarrow> supervisor_event list \<Rightarrow> supervisor_state" where
  "supervisor_run max_concurrent_research_units n events =
     foldl (supervisor_step max_concurrent_research_units) (supervisor_start n) events"

section \<open>Properties of the citation rendering\<close>

lemma format_loop_append: "format_loop sts acc = acc @ map statement_text sts"
  by (induction sts arbitrary: acc) simp_all

lemma format_response_map:
  "format_response a = str_join [CHR 0x0A] (map statement_text (statements a))"
  by (simp add: format_response_def format_loop_append)

lemma statement_text_cited:
  assumes "reference_url st = Some u" and "u \<noteq> []"
    and "reference_title st = Some t" and "t \<noteq> []"
  shows "statement_text st = answer_sentece st @ '' [['' @ t @ '']('' @ u @ '')]''"
  using assms by (simp add: statement_text_def)

lemma statement_text_plain:
  "\<not> (truthy (reference_url st) \<and> truthy (reference_title st)) \<Longrightarrow>
   statement_text st = answer_sentece st"
  by (auto simp add: statement_text_def Let_def)

lemma split_on_plain: "c \<notin> set x \<Longrightarrow> split_on c x = [x]"
  by (induction x) auto

lemma split_on_sep: "c \<notin> set x \<Longrightarrow> split_on c (x @ c # rest) = x # split_on c rest"
  by (induction x) auto

lemma split_on_join:
  "xs \<noteq> [] \<Longrightarrow> \<forall>x\<in>set xs. c \<notin> set x \<Longrightarrow> split_on c (str_join [c] xs) = xs"
proof (induction "[c]" xs rule: str_join.induct)
  case 1
  then show ?case by simp
next
  case (2 x)
  then show ?case by (simp add: split_on_plain)
next
  case (3 x y ys)
  then show ?case by (simp add: split_on_sep)
qed

text \<open>
  C1, as the code has it. A statement whose url and title are both non-empty strings is
  rendered as its text, a space, and the markdown link \<^verbatim>\<open>[title](url)\<close> enclosed in one
  more pair of square brackets: \<^verbatim>\<open><text> [[<title>](<url>)]\<close>. This is the entry of
  \<^verbatim>\<open>answer_text\<close> at the statement's position, and the whole output when the statement is
  the only one.
\<close>

theorem format_response_cited_line:
  assumes "i < length (statements a)"
    and "reference_url (statements a ! i) = Some u" and "u \<noteq> []"
    and "reference_title (statements a ! i) = Some t" and "t \<noteq> []"
  shows "format_loop (statements a) [] ! i =
           answer_sentece (statements a ! i) @ '' [['' @ t @ '']('' @ u @ '')]'' \<and>
         (length (statements a) = 1 \<longrightarrow>
            format_response a =
              answer_sentece (statements a ! i) @ '' [['' @ t @ '']('' @ u @ '')]'')"
proof -
  have line: "format_loop (statements a) [] ! i =
      answer_sentece (statements a ! i) @ '' [['' @ t @ '']('' @ u @ '')]''"
    using assms by (simp add: format_loop_append statement_text_cited)
  have "format_response a = format_loop (statements a) [] ! i"
    if one: "length (statements a) = 1"
  proof -
    from one obtain st where st: "statements a = [st]"
      by (cases "statements a") auto
    with assms(1) have "i = 0" by simp
    with st show ?thesis by (simp add: format_response_def)
  qed
  with line show ?thesis by simp
qed

theorem format_response_cited_line_witness:
  "format_response
     \<lparr>statements = [\<lparr>reasoning = ''why'', answer_sentece = ''* Paris is the capital.'',
                     reference_url = Some ''https://example.org/paris'',
                     reference_title = Some ''Paris''\<rparr>]\<rparr> =
   ''* Paris is the capital. [[Paris](https://example.org/paris)]''"
  using format_response_cited_line
    [of 0 "\<lparr>statements = [\<lparr>reasoning = ''why'', answer_sentece = ''* Paris is the capital.'',
                     reference_url = Some ''https://example.org/paris'',
                     reference_title = Some ''Paris''\<rparr>]\<rparr>"
        "''https://example.org/paris''" "''Paris''"]
  by simp

text \<open>
  C1, as the claim has it, fails: the rendered line is not
  \<^verbatim>\<open><text> [<title>](<url>)\<close>, the link stands inside a second pair of brackets.
\<close>

theorem cited_line_plain_link_counterexample:
  "format_response
     \<lparr>statements = [\<lparr>reasoning = ''why'', answer_sentece = ''* Paris is the capital.'',
                     reference_url = Some ''https://example.org/paris'',
                     reference_title = Some ''Paris''\<rparr>]\<rparr> \<noteq>
   ''* Paris is the capital. [Paris](https://example.org/paris)''"
  by (simp add: format_response_def statement_text_def)

text \<open>
  C2. Rendering is all or nothing: a statement with no citation (neither url nor title),
  and a statement with exactly one of the two, is rendered as its text alone.
\<close>

theorem statement_all_or_nothing:
  assumes "reference_url st = None \<or> reference_title st = None"
  shows "statement_text st = answer_sentece st \<and>
         format_response \<lparr>statements = [st]\<rparr> = answer_sentece st"
proof -
  from assms have "\<not> (truthy (reference_url st) \<and> truthy (reference_title st))"
    by auto
  then have "statement_text st = answer_sentece st"
    by (rule statement_text_plain)
  then show ?thesis
    by (simp add: format_response_def)
qed

theorem statement_all_or_nothing_witness:
  "statement_text \<lparr>reasoning = ''why'', answer_sentece = ''Only a url.'',
                   reference_url = Some ''https://example.org'', reference_title = None\<rparr> =
     ''Only a url.'' \<and>
   statement_text \<lparr>reasoning = ''why'', answer_sentece = ''Only a title.'',
                   reference_url = None, reference_title = Some ''Example''\<rparr> =
     ''Only a title.'' \<and>
   statement_text \<lparr>reasoning = ''why'', answer_sentece = ''## Heading'',
                   reference_url = None, reference_title = None\<rparr> =
     ''## Heading''"
  using statement_all_or_nothing
      [of "\<lparr>reasoning = ''why'', answer_sentece = ''Only a url.'',
            reference_url = Some ''https://example.org'', reference_title = None\<rparr>"]
    statement_all_or_nothing
      [of "\<lparr>reasoning = ''why'', answer_sentece = ''Only a title.'',
            reference_url = None, reference_title = Some ''Example''\<rparr>"]
    statement_all_or_nothing
      [of "\<lparr>reasoning = ''why'', answer_sentece = ''## Heading'',
            reference_url = None, reference_title = None\<rparr>"]
  by simp

text \<open>
  C3, as the code has it. The output of \<^verbatim>\<open>format_response\<close> is the renderings of the
  statements joined by one line feed, in the order of the list: there is one rendering per
  statement, the i-th rendering is that of statement i, and no statements give the empty
  string. Statement i is line i of the output when the list is not empty and no rendering
  contains a line feed of its own.
\<close>

theorem format_response_join_in_order:
  "format_response a = str_join [CHR 0x0A] (map statement_text (statements a)) \<and>
   length (format_loop (statements a) []) = length (statements a) \<and>
   (\<forall>i<length (statements a).
      format_loop (statements a) [] ! i = statement_text (statements a ! i)) \<and>
   (statements a = [] \<longrightarrow> format_response a = []) \<and>
   (statements a \<noteq> [] \<and> (\<forall>s\<in>set (statements a). CHR 0x0A \<notin> set (statement_text s)) \<longrightarrow>
      split_on (CHR 0x0A) (format_response a) = map statement_text (statements a))"
  by (simp add: format_response_map format_loop_append split_on_join)

theorem format_response_join_in_order_witness:
  "format_response
     \<lparr>statements = [\<lparr>reasoning = ''r1'', answer_sentece = ''## Title'',
                     reference_url = None, reference_title = None\<rparr>,
                    \<lparr>reasoning = ''r2'', answer_sentece = ''* First.'',
                     reference_url = Some ''u'', reference_title = Some ''T''\<rparr>,
                    \<lparr>reasoning = ''r3'', answer_sentece = ''* Second.'',
                     reference_url = None, reference_title = Some ''T''\<rparr>]\<rparr> =
     ''## Title'' @ [CHR 0x0A] @ ''* First. [[T](u)]'' @ [CHR 0x0A] @ ''* Second.'' \<and>
   split_on (CHR 0x0A)
     (format_response
        \<lparr>statements = [\<lparr>reasoning = ''r1'', answer_sentece = ''## Title'',
                        reference_url = None, reference_title = None\<rparr>,
                       \<lparr>reasoning = ''r2'', answer_sentece = ''* First.'',
                        reference_url = Some ''u'', reference_title = Some ''T''\<rparr>,
                       \<lparr>reasoning = ''r3'', answer_sentece = ''* Second.'',
                        reference_url = None, reference_title = Some ''T''\<rparr>]\<rparr>) =
     [''## Title'', ''* First. [[T](u)]'', ''* Second.'']"
  using format_response_join_in_order
    [of "\<lparr>statements = [\<lparr>reasoning = ''r1'', answer_sentece = ''## Title'',
                        reference_url = None, reference_title = None\<rparr>,
                       \<lparr>reasoning = ''r2'', answer_sentece = ''* First.'',
                        reference_url = Some ''u'', reference_title = Some ''T''\<rparr>,
                       \<lparr>reasoning = ''r3'', answer_sentece = ''* Second.'',
                        reference_url = None, reference_title = Some ''T''\<rparr>]\<rparr>"]
  by (simp add: statement_text_def)

text \<open>
  C3, as the claim has it, fails: statement i is not always line i. The first statement of
  this answer has a text of two lines, so the two statements give three lines, and the
  second line of the output is not the rendering of the second statement.
\<close>

theorem line_per_statement_counterexample:
  "format_response multiline_answer =
     ''Summary:'' @ [CHR 0x0A] @ ''details'' @ [CHR 0x0A] @ ''* Second.'' \<and>
   split_on (CHR 0x0A) (format_response multiline_answer) =
     [''Summary:'', ''details'', ''* Second.''] \<and>
   length (statements multiline_answer) = 2 \<and>
   split_on (CHR 0x0A) (format_response multiline_answer) ! 1 \<noteq>
     statement_text (statements multiline_answer ! 1)"
  by (simp add: format_response_def multiline_answer_def statement_text_def)

lemma loop_body_call_result:
  assumes "statement_objects (frame_store fr) ref = Some statement"
  shows "\<exists>fr'. loop_body_call ref fr = Some fr' \<and> frame_store fr' = frame_store fr \<and>
           local_answer_text fr' = local_answer_text fr @ [statement_text statement]"
  using assms by (simp add: loop_body_call_def statement_text_def Let_def)

lemma format_loop_call_result:
  "set refs \<subseteq> dom (statement_objects (frame_store fr)) \<Longrightarrow>
   \<exists>fr'. format_loop_call refs fr = Some fr' \<and> frame_store fr' = frame_store fr \<and>
     local_answer_text fr' =
       local_answer_text fr @
       map (\<lambda>r. statement_text (the (statement_objects (frame_store fr) r))) refs"
proof (induction refs arbitrary: fr)
  case Nil
  then show ?case by simp
next
  case (Cons ref refs)
  from Cons.prems obtain statement
    where here: "statement_objects (frame_store fr) ref = Some statement"
    by auto
  from loop_body_call_result [OF here] obtain fr1
    where step: "loop_body_call ref fr = Some fr1"
      and same: "frame_store fr1 = frame_store fr"
      and text1: "local_answer_text fr1 = local_answer_text fr @ [statement_text statement]"
    by blast
  from Cons.prems same have "set refs \<subseteq> dom (statement_objects (frame_store fr1))"
    by simp
  from Cons.IH [OF this] obtain fr2
    where rest: "format_loop_call refs fr1 = Some fr2"
      and same2: "frame_store fr2 = frame_store fr1"
      and text2: "local_answer_text fr2 =
        local_answer_text fr1 @
        map (\<lambda>r. statement_text (the (statement_objects (frame_store fr1) r))) refs"
    by blast
  from step rest same same2 text1 text2 here show ?case
    by simp
qed

lemma format_response_call_result:
  assumes "answer_objects st self = Some refs" and "set refs \<subseteq> dom (statement_objects st)"
  shows "format_response_call st self =
           Some (str_join [CHR 0x0A]
                   (map (\<lambda>r. statement_text (the (statement_objects st r))) refs), st)"
proof -
  from assms(2)
  have "set refs \<subseteq> dom (statement_objects
      (frame_store \<lparr>frame_store = st, local_text = [], local_answer_text = []\<rparr>))"
    by simp
  from format_loop_call_result [OF this] assms(1) show ?thesis
    by (auto simp add: format_response_call_def)
qed

text \<open>
  C4. Rendering is idempotent and deterministic. A call of \<^verbatim>\<open>format_response\<close> on a stored
  answer returns its markdown and leaves the store exactly as it found it, so a second call
  on the same object returns the identical string; the string is a function of the
  statements list alone, the rendering of the list of statements that the object refers to.
\<close>

theorem format_response_call_idempotent:
  assumes "answer_objects st self = Some refs" and "set refs \<subseteq> dom (statement_objects st)"
  shows "\<exists>out. format_response_call st self = Some (out, st) \<and>
           render_twice st self = Some (out, out) \<and>
           out = format_response \<lparr>statements = map (\<lambda>r. the (statement_objects st r)) refs\<rparr>"
proof -
  let ?out = "str_join [CHR 0x0A] (map (\<lambda>r. statement_text (the (statement_objects st r))) refs)"
  have once: "format_response_call st self = Some (?out, st)"
    using assms by (rule format_response_call_result)
  then have twice: "render_twice st self = Some (?out, ?out)"
    by (simp add: render_twice_def)
  have "?out = format_response \<lparr>statements = map (\<lambda>r. the (statement_objects st r)) refs\<rparr>"
    by (simp add: format_response_map comp_def)
  with once twice show ?thesis
    by blast
qed

theorem format_response_call_idempotent_witness:
  "render_twice example_store 0 =
     Some (''## Paris'' @ [CHR 0x0A] @
             ''* Paris is the capital. [[Paris](https://example.org/paris)]'',
           ''## Paris'' @ [CHR 0x0A] @
             ''* Paris is the capital. [[Paris](https://example.org/paris)]'')"
proof -
  have object: "answer_objects example_store 0 = Some [1, 2]"
    by (simp add: example_store_def)
  have stored: "set [1, 2] \<subseteq> dom (statement_objects example_store)"
    by (simp add: example_store_def)
  from format_response_call_idempotent [OF object stored] show ?thesis
    by (auto simp add: format_response_def statement_text_def example_store_def)
qed

text \<open>
  C10. An empty string counts as absent: when the url or the title is the empty string the
  statement is rendered as its text alone, exactly as when that field is \<^verbatim>\<open>None\<close>.
\<close>

theorem empty_reference_is_absent:
  assumes "reference_url st = Some [] \<or> reference_title st = Some []"
  shows "statement_text st = answer_sentece st \<and>
         format_response \<lparr>statements = [st]\<rparr> = answer_sentece st \<and>
         statement_text (st\<lparr>reference_url := Some []\<rparr>) =
           statement_text (st\<lparr>reference_url := None\<rparr>) \<and>
         statement_text (st\<lparr>reference_title := Some []\<rparr>) =
           statement_text (st\<lparr>reference_title := None\<rparr>)"
proof -
  from assms have "\<not> (truthy (reference_url st) \<and> truthy (reference_title st))"
    by auto
  then have "statement_text st = answer_sentece st"
    by (rule statement_text_plain)
  then show ?thesis
    by (simp add: format_response_def statement_text_def)
qed

theorem empty_reference_is_absent_witness:
  "statement_text \<lparr>reasoning = ''why'', answer_sentece = ''Empty url.'',
                   reference_url = Some '''', reference_title = Some ''Example''\<rparr> =
     ''Empty url.'' \<and>
   statement_text \<lparr>reasoning = ''why'', answer_sentece = ''Empty title.'',
                   reference_url = Some ''https://example.org'', reference_title = Some ''''\<rparr> =
     ''Empty title.''"
  using empty_reference_is_absent
      [of "\<lparr>reasoning = ''why'', answer_sentece = ''Empty url.'',
            reference_url = Some '''', reference_title = Some ''Example''\<rparr>"]
    empty_reference_is_absent
      [of "\<lparr>reasoning = ''why'', answer_sentece = ''Empty title.'',
            reference_url = Some ''https://example.org'', reference_title = Some ''''\<rparr>"]
  by simp

section \<open>Properties of the structured outputs\<close>

lemmas clarification_example_defs =
  clarification_examples_def clarification_example_1_def clarification_example_2_def
  clarification_example_3_def clarification_example_4_def

lemmas plan_example_defs =
  plan_examples_def plan_example_1_def plan_example_2_def plan_example_3_def

text \<open>
  C5, as the code has it. \<^verbatim>\<open>ClarificationOutput\<close> has no validator: a construction that
  gives the flag and the statements (the question may be left out and is then absent)
  succeeds for every combination of values and stores them unchanged, so the pairing of
  flag, question and statements is not enforced on construction. Each of the four example
  outputs of \<^verbatim>\<open>ClarificationPrompt\<close> does meet the pairing.
\<close>

theorem ClarificationOutput_init_accepts_all:
  "ClarificationOutput_init (Some r) q (Some fs) =
     Inr \<lparr>clarification_is_required = r,
          clarifying_question = (case q of None \<Rightarrow> None | Some v \<Rightarrow> v),
          final_statements = fs\<rparr> \<and>
   list_all (accepted_with clarification_pairing) clarification_examples"
  by (simp add: ClarificationOutput_init_def clarification_example_defs
      clarification_pairing_def)

text \<open>
  C5, as the claim has it, fails: a decision that requires clarification, carries no
  question and has a non-empty statement list is constructed without error.
\<close>

theorem clarification_pairing_counterexample:
  "ClarificationOutput_init (Some True) None (Some [''Capital of France'']) =
     Inr \<lparr>clarification_is_required = True, clarifying_question = None,
          final_statements = [''Capital of France'']\<rparr> \<and>
   \<not> clarification_pairing
     \<lparr>clarification_is_required = True, clarifying_question = None,
      final_statements = [''Capital of France'']\<rparr>"
  by (simp add: ClarificationOutput_init_def clarification_pairing_def)

text \<open>
  C6, as the code has it. \<^verbatim>\<open>PlannerOutput\<close> has no validator: a construction that gives
  all four fields succeeds for every plan list and every topic list and stores both
  unchanged, neither truncated nor padded, whatever their lengths. Each of the three example
  outputs of \<^verbatim>\<open>PlanPrompt\<close> has exactly three pairwise different steps and at most ten
  expanded topics.
\<close>

theorem PlannerOutput_init_accepts_all:
  "PlannerOutput_init (Some rt) (Some ts) (Some rp) (Some p) =
     Inr \<lparr>reasoning_on_topics = rt, expanded_topics = ts,
          reasoning_on_plan = rp, plan = p\<rparr> \<and>
   list_all (accepted_with valid_plan) plan_examples"
  by (simp add: PlannerOutput_init_def plan_example_defs valid_plan_def)

text \<open>
  C6, as the claim has it, fails: a plan of one step is constructed without error, and it is
  not a valid plan.
\<close>

theorem planner_step_count_counterexample:
  "PlannerOutput_init (Some ''topics'') (Some [''Capital of France''])
       (Some ''plan'') (Some [''Find the capital of France'']) =
     Inr \<lparr>reasoning_on_topics = ''topics'', expanded_topics = [''Capital of France''],
          reasoning_on_plan = ''plan'', plan = [''Find the capital of France'']\<rparr> \<and>
   \<not> valid_plan
     \<lparr>reasoning_on_topics = ''topics'', expanded_topics = [''Capital of France''],
      reasoning_on_plan = ''plan'', plan = [''Find the capital of France'']\<rparr>"
  by (simp add: PlannerOutput_init_def valid_plan_def)

section \<open>Properties of the retrieval tool\<close>








section \<open>Properties of the Research Worker\<close>

lemma search_calls_reflect: "search_calls (reflect inp log) = search_calls log"
  by (simp add: reflect_def search_calls_def)

lemma issue_searches_within_budget:
  "int (search_calls log) \<le> max 0 m \<Longrightarrow> int (search_calls (issue_searches m inp log)) \<le> max 0 m"
  by (auto simp add: issue_searches_def Let_def search_calls_def)

lemma issue_searches_progress:
  "int (search_calls log) < m \<Longrightarrow> search_calls log < search_calls (issue_searches m inp log)"
  by (auto simp add: issue_searches_def Let_def search_calls_def)

lemma issue_searches_exhausted:
  "m \<le> int (search_calls log) \<Longrightarrow> issue_searches m inp log = log"
  by (simp add: issue_searches_def)

lemma worker_step_within_budget:
  "int (search_calls (calls s)) \<le> max 0 m \<Longrightarrow>
   int (search_calls (calls (worker_step m s inp))) \<le> max 0 m"
  by (cases "phase s")
    (auto simp add: worker_step_def Let_def search_calls_reflect
      intro: issue_searches_within_budget split: option.splits)

lemma worker_steps_within_budget:
  "int (search_calls (calls s)) \<le> max 0 m \<Longrightarrow>
   int (search_calls (calls (foldl (worker_step m) s inputs))) \<le> max 0 m"
  by (induction inputs arbitrary: s) (simp_all add: worker_step_within_budget)

lemma worker_step_exhausted:
  "m \<le> int (search_calls (calls s)) \<Longrightarrow>
   search_calls (calls (worker_step m s inp)) = search_calls (calls s)"
  by (cases "phase s")
    (auto simp add: worker_step_def Let_def search_calls_reflect issue_searches_exhausted
      split: option.splits)

lemma worker_step_must_answer:
  "phase s = Reflecting \<Longrightarrow> m \<le> int (search_calls (calls s)) \<Longrightarrow>
   phase (worker_step m s inp) = Answering"
  by (auto simp add: worker_step_def Let_def stop_condition_def search_calls_reflect)

lemma stop_condition_None:
  "stop_condition m inp log = None \<Longrightarrow> int (search_calls log) < m"
  by (auto simp add: stop_condition_def split: if_splits)

lemma worker_step_decreases:
  "phase s \<noteq> Done \<Longrightarrow> worker_remaining m (worker_step m s inp) < worker_remaining m s"
proof (cases "phase s")
  case Start
  then show ?thesis
    by (simp add: worker_step_def worker_remaining_def)
next
  case Searching
  show ?thesis
  proof (cases "int (search_calls (calls s)) < m")
    case True
    then have "search_calls (calls s) < search_calls (issue_searches m inp (calls s))"
      by (rule issue_searches_progress)
    with True Searching show ?thesis
      by (auto simp add: worker_step_def worker_remaining_def Let_def)
  next
    case False
    with Searching show ?thesis
      by (simp add: worker_step_def worker_remaining_def issue_searches_exhausted)
  qed
next
  case Reflecting
  show ?thesis
  proof (cases "stop_condition m inp (reflect inp (calls s))")
    case None
    then have "int (search_calls (calls s)) < m"
      using stop_condition_None [of m inp "reflect inp (calls s)"]
      by (simp add: search_calls_reflect)
    with None Reflecting show ?thesis
      by (simp add: worker_step_def worker_remaining_def Let_def search_calls_reflect)
  next
    case (Some reason)
    with Reflecting show ?thesis
      by (simp add: worker_step_def worker_remaining_def Let_def)
  qed
next
  case Answering
  then show ?thesis
    by (simp add: worker_step_def worker_remaining_def)
next
  case Done
  assume "phase s \<noteq> Done"
  with Done show ?thesis by simp
qed

lemma worker_step_Done: "phase s = Done \<Longrightarrow> worker_step m s inp = s"
  by (simp add: worker_step_def)

lemma worker_remaining_Done: "worker_remaining m s = 0 \<longleftrightarrow> phase s = Done"
  by (cases "phase s") (simp_all add: worker_remaining_def Let_def)

lemma worker_steps_remaining:
  "worker_remaining m (foldl (worker_step m) s inputs) \<le> worker_remaining m s - length inputs"
proof (induction inputs arbitrary: s)
  case Nil
  then show ?case by simp
next
  case (Cons inp inputs)
  show ?case
  proof (cases "phase s = Done")
    case True
    then have "worker_remaining m s = 0"
      by (simp add: worker_remaining_Done)
    with True Cons.IH [of s] show ?thesis
      by (simp add: worker_step_Done)
  next
    case False
    then have "worker_remaining m (worker_step m s inp) < worker_remaining m s"
      by (rule worker_step_decreases)
    with Cons.IH [of "worker_step m s inp"] show ?thesis
      by simp
  qed
qed

lemma worker_run_finishes:
  assumes "2 * nat m + 4 \<le> length inputs"
  shows "phase (worker_run m inputs) = Done"
proof -
  have "worker_remaining m worker_start = 2 * nat m + 4"
    by (simp add: worker_remaining_def worker_start_def search_calls_def)
  with assms worker_steps_remaining [of m worker_start inputs]
  have "worker_remaining m (worker_run m inputs) = 0"
    by (simp add: worker_run_def)
  then show ?thesis
    by (simp add: worker_remaining_Done)
qed

text \<open>
  C8. In every execution of the worker, whatever the collaborators answer and however long
  it runs, the number of search-type calls (retrieval and web search together) never
  exceeds the budget. Once the budget is used up no transition adds a search call, and the
  reflection that follows moves to \<open>Answering\<close>: with budget 3, after the third search
  the worker answers rather than searching a fourth time. A reflection is a
  \<^verbatim>\<open>note\<close> call and leaves the count of search calls unchanged. The worker reaches
  \<open>Done\<close> within \<open>2 * budget + 4\<close> transitions.
\<close>

theorem worker_search_budget:
  "int (search_calls (calls (worker_run m inputs))) \<le> max 0 m \<and>
   (0 \<le> m \<longrightarrow> int (search_calls (calls (worker_run m inputs))) \<le> m) \<and>
   (m \<le> int (search_calls (calls s)) \<longrightarrow>
      search_calls (calls (worker_step m s inp)) = search_calls (calls s)) \<and>
   (phase s = Reflecting \<and> m \<le> int (search_calls (calls s)) \<longrightarrow>
      phase (worker_step m s inp) = Answering) \<and>
   search_calls (reflect inp log) = search_calls log \<and>
   (2 * nat m + 4 \<le> length inputs \<longrightarrow> phase (worker_run m inputs) = Done)"
proof -
  have "int (search_calls (calls worker_start)) \<le> max 0 m"
    by (simp add: worker_start_def search_calls_def)
  then have bound: "int (search_calls (calls (worker_run m inputs))) \<le> max 0 m"
    unfolding worker_run_def by (rule worker_steps_within_budget)
  then have "0 \<le> m \<longrightarrow> int (search_calls (calls (worker_run m inputs))) \<le> m"
    by arith
  with bound show ?thesis
    by (simp add: worker_step_exhausted worker_step_must_answer search_calls_reflect
        worker_run_finishes)
qed

theorem worker_search_budget_witness:
  "int (search_calls (calls (worker_run 3 (replicate 10 undecided_input)))) \<le> 3 \<and>
   phase (worker_run 3 (replicate 10 undecided_input)) = Done \<and>
   phase (worker_step 3
     \<lparr>phase = Reflecting,
      calls = [\<lparr>kind = retrieval, query = ''q1'', result_count = 2\<rparr>,
               \<lparr>kind = note_tool, query = ''q1'', result_count = 0\<rparr>,
               \<lparr>kind = retrieval, query = ''q2'', result_count = 0\<rparr>,
               \<lparr>kind = web_search, query = ''q2'', result_count = 1\<rparr>],
      stopped = None\<rparr> undecided_input) = Answering"
proof -
  have budget: "(0::int) \<le> 3"
    by simp
  have long: "2 * nat 3 + 4 \<le> length (replicate 10 undecided_input)"
    by simp
  have used: "3 \<le> int (search_calls (calls
     \<lparr>phase = Reflecting,
      calls = [\<lparr>kind = retrieval, query = ''q1'', result_count = 2\<rparr>,
               \<lparr>kind = note_tool, query = ''q1'', result_count = 0\<rparr>,
               \<lparr>kind = retrieval, query = ''q2'', result_count = 0\<rparr>,
               \<lparr>kind = web_search, query = ''q2'', result_count = 1\<rparr>],
      stopped = None\<rparr>))"
    by (simp add: search_calls_def)
  from budget long used show ?thesis
    using worker_search_budget
      [of 3 "replicate 10 undecided_input"
        "\<lparr>phase = Reflecting,
          calls = [\<lparr>kind = retrieval, query = ''q1'', result_count = 2\<rparr>,
                   \<lparr>kind = note_tool, query = ''q1'', result_count = 0\<rparr>,
                   \<lparr>kind = retrieval, query = ''q2'', result_count = 0\<rparr>,
                   \<lparr>kind = web_search, query = ''q2'', result_count = 1\<rparr>],
          stopped = None\<rparr>" undecided_input]
    by simp
qed

section \<open>Properties of the Research Supervisor\<close>

lemma length_removeAll_less: "t \<in> set xs \<Longrightarrow> length (removeAll t xs) < length xs"
  by (induction xs) (auto simp add: less_Suc_eq_le)

lemma supervisor_step_within_bound:
  "int (length (in_flight s)) \<le> max 0 k \<Longrightarrow>
   int (length (in_flight (supervisor_step k s ev))) \<le> max 0 k"
proof (cases ev)
  case Dispatch
  assume "int (length (in_flight s)) \<le> max 0 k"
  with Dispatch show ?thesis
    by (cases "pending s") (auto simp add: supervisor_step_def)
next
  case (Complete t r)
  assume bound: "int (length (in_flight s)) \<le> max 0 k"
  have "int (length (removeAll t (in_flight s))) \<le> int (length (in_flight s))"
    by simp
  also note bound
  finally have "int (length (removeAll t (in_flight s))) \<le> max 0 k" .
  with bound Complete show ?thesis
    by (simp add: supervisor_step_def)
next
  case Abandon
  then show ?thesis
    by (simp add: supervisor_step_def)
qed

lemma supervisor_steps_within_bound:
  "int (length (in_flight s)) \<le> max 0 k \<Longrightarrow>
   int (length (in_flight (foldl (supervisor_step k) s events))) \<le> max 0 k"
  by (induction events arbitrary: s) (simp_all add: supervisor_step_within_bound)

lemma supervisor_dispatch_full:
  "k \<le> int (length (in_flight s)) \<Longrightarrow> supervisor_step k s Dispatch = s"
  by (cases "pending s") (simp_all add: supervisor_step_def)

lemma supervisor_dispatch_keeps_tasks:
  "in_flight (supervisor_step k s Dispatch) @ pending (supervisor_step k s Dispatch) =
   in_flight s @ pending s"
  by (cases "pending s") (simp_all add: supervisor_step_def)

lemma supervisor_slot_freed:
  assumes "t \<in> set (in_flight s)" and "int (length (in_flight s)) \<le> k"
    and "pending s = p # rest"
  shows "in_flight (supervisor_step k (supervisor_step k s (Complete t r)) Dispatch) =
           removeAll t (in_flight s) @ [p] \<and>
         pending (supervisor_step k (supervisor_step k s (Complete t r)) Dispatch) = rest"
proof -
  have "length (removeAll t (in_flight s)) < length (in_flight s)"
    using assms(1) by (rule length_removeAll_less)
  with assms(2) have "int (length (removeAll t (in_flight s))) < k"
    by simp
  with assms(1,3) show ?thesis
    by (simp add: supervisor_step_def)
qed

text \<open>
  C9. In every run of the scheduler, for every interleaving of dispatch attempts and
  completions (and a cut-off) and after each of its events, the number of tasks in flight never exceeds
  \<open>max_concurrent_research_units\<close>. A dispatch attempted while the bound is reached
  changes nothing, so the task stays queued; no dispatch loses or duplicates a task; and
  when a task in flight completes, the next queued task is dispatched into the freed slot.
\<close>

theorem supervisor_concurrency_bound:
  "int (length (in_flight (supervisor_run k n events))) \<le> max 0 k \<and>
   (0 \<le> k \<longrightarrow> int (length (in_flight (supervisor_run k n events))) \<le> k) \<and>
   (k \<le> int (length (in_flight s)) \<longrightarrow> supervisor_step k s Dispatch = s) \<and>
   in_flight (supervisor_step k s Dispatch) @ pending (supervisor_step k s Dispatch) =
     in_flight s @ pending s \<and>
   (t \<in> set (in_flight s) \<and> int (length (in_flight s)) \<le> k \<and> pending s = p # rest \<longrightarrow>
      in_flight (supervisor_step k (supervisor_step k s (Complete t r)) Dispatch) =
        removeAll t (in_flight s) @ [p] \<and>
      pending (supervisor_step k (supervisor_step k s (Complete t r)) Dispatch) = rest)"
proof -
  have "int (length (in_flight (supervisor_start n))) \<le> max 0 k"
    by (simp add: supervisor_start_def)
  then have bound: "int (length (in_flight (supervisor_run k n events))) \<le> max 0 k"
    unfolding supervisor_run_def by (rule supervisor_steps_within_bound)
  then have "0 \<le> k \<longrightarrow> int (length (in_flight (supervisor_run k n events))) \<le> k"
    by arith
  with bound show ?thesis
    using supervisor_dispatch_keeps_tasks [of k s] supervisor_slot_freed [of t s k p rest r]
    by (simp add: supervisor_dispatch_full)
qed

theorem supervisor_concurrency_bound_witness:
  "int (length (in_flight
     (supervisor_run 2 5 [Dispatch, Dispatch, Dispatch, Dispatch, Dispatch]))) \<le> 2 \<and>
   supervisor_step 2 \<lparr>pending = [2, 3, 4], in_flight = [0, 1], slots = replicate 5 None\<rparr>
     Dispatch =
     \<lparr>pending = [2, 3, 4], in_flight = [0, 1], slots = replicate 5 None\<rparr> \<and>
   in_flight (supervisor_step 2
     (supervisor_step 2 \<lparr>pending = [2, 3, 4], in_flight = [0, 1], slots = replicate 5 None\<rparr>
        (Complete 0 \<lparr>report = ''done'', references = []\<rparr>))
     Dispatch) = [1, 2]"
proof -
  have bound: "(0::int) \<le> 2"
    by simp
  have full: "2 \<le> int (length (in_flight
      \<lparr>pending = [2, 3, 4], in_flight = [0, 1], slots = replicate 5 None\<rparr>))"
    by simp
  have running: "0 \<in> set (in_flight
      \<lparr>pending = [2, 3, 4], in_flight = [0, 1], slots = replicate 5 None\<rparr>)"
    by simp
  have queued: "pending \<lparr>pending = [2, 3, 4], in_flight = [0, 1], slots = replicate 5 None\<rparr> =
      2 # [3, 4]"
    by simp
  from bound full running queued show ?thesis
    using supervisor_concurrency_bound
      [of 2 5 "[Dispatch, Dispatch, Dispatch, Dispatch, Dispatch]"
        "\<lparr>pending = [2, 3, 4], in_flight = [0, 1], slots = replicate 5 None\<rparr>"
        0 2 "[3, 4]" "\<lparr>report = ''done'', references = []\<rparr>"]
    by simp
qed

end
